theory Spec2Isabelle
  imports Main "HOL-Library.Sublist"
begin

section \<open>Values, truthiness and lookups\<close>

text \<open>
  The checks of \<^verbatim>\<open>logging.py\<close> work on what \<^verbatim>\<open>json.loads\<close> and the Ansible
  task variables hold: \<^verbatim>\<open>None\<close>, booleans, numbers, strings, lists and dicts with string
  keys. A dict is an association list with one entry per key, in insertion order.
  Numbers are integers: no function of the file computes with a number.
\<close>

datatype json =
    JNull
  | JBool bool
  | JNum int
  | JStr string
  | JArr "json list"
  | JObj "(string \<times> json) list"

text \<open>
  Everything the file can raise. \<open>Undefined\<close> stands for an exception of the variable
  resolver, should it raise on a path that does not resolve.
\<close>

datatype error =
    KeyError
  | IndexError
  | TypeError
  | AttributeError
  | Undefined "string list"
  | OpenShiftCheckException string

definition then_do :: "error + 'a \<Rightarrow> ('a \<Rightarrow> error + 'b) \<Rightarrow> error + 'b" where
  "then_do m f = (case m of Inl e \<Rightarrow> Inl e | Inr v \<Rightarrow> f v)"

text \<open>Python's truth value of an object, as \<^verbatim>\<open>not\<close>, \<^verbatim>\<open>and\<close>, \<^verbatim>\<open>or\<close> and \<^verbatim>\<open>if\<close> test it.\<close>

fun truthy :: "json \<Rightarrow> bool" where
  "truthy JNull = False"
| "truthy (JBool b) = b"
| "truthy (JNum n) = (n \<noteq> 0)"
| "truthy (JStr s) = (s \<noteq> [])"
| "truthy (JArr xs) = (xs \<noteq> [])"
| "truthy (JObj kvs) = (kvs \<noteq> [])"

text \<open>
  \<^verbatim>\<open>a or b\<close> on values: the result is one of the operands. (\<^verbatim>\<open>a and b\<close> is written
  out where it occurs, as its right operand can raise.)
\<close>

definition py_or :: "json \<Rightarrow> json \<Rightarrow> json" where
  "py_or a b = (if truthy a then a else b)"

text \<open>
  \<^verbatim>\<open>x == y\<close>. Booleans compare as the integers 0 and 1, lists element by element,
  dicts key by key whatever the order of their entries; values of other unlike types
  differ.
\<close>

fun py_eq :: "json \<Rightarrow> json \<Rightarrow> bool" where
  "py_eq JNull JNull = True"
| "py_eq (JBool a) (JBool b) = (a = b)"
| "py_eq (JBool a) (JNum n) = ((if a then 1 else 0) = n)"
| "py_eq (JNum n) (JBool b) = (n = (if b then 1 else 0))"
| "py_eq (JNum m) (JNum n) = (m = n)"
| "py_eq (JStr s) (JStr t) = (s = t)"
| "py_eq (JArr xs) (JArr ys) = list_all2 py_eq xs ys"
| "py_eq (JObj a) (JObj b) =
     (length a = length b \<and>
      list_all (\<lambda>(k, v). case map_of b k of None \<Rightarrow> False | Some w \<Rightarrow> py_eq v w) a)"
| "py_eq _ _ = False"

text \<open>\<^verbatim>\<open>x.get(k, d)\<close>: only a dict has the method.\<close>

fun py_get :: "json \<Rightarrow> string \<Rightarrow> json \<Rightarrow> error + json" where
  "py_get (JObj kvs) k d = Inr (case map_of kvs k of None \<Rightarrow> d | Some v \<Rightarrow> v)"
| "py_get _ k d = Inl AttributeError"

text \<open>
  \<^verbatim>\<open>x[k]\<close> with a string key: a dict without the key raises \<^verbatim>\<open>KeyError\<close>, any
  other value \<^verbatim>\<open>TypeError\<close>.
\<close>

fun py_getitem :: "json \<Rightarrow> string \<Rightarrow> error + json" where
  "py_getitem (JObj kvs) k = (case map_of kvs k of None \<Rightarrow> Inl KeyError | Some v \<Rightarrow> Inr v)"
| "py_getitem _ k = Inl TypeError"

text \<open>
  \<^verbatim>\<open>x[0]\<close>: the first element of a list, the first character of a string, an
  \<^verbatim>\<open>IndexError\<close> when they are empty. The keys of the dicts here are strings, so 0 is
  never among them.
\<close>

fun py_first :: "json \<Rightarrow> error + json" where
  "py_first (JArr (x # xs)) = Inr x"
| "py_first (JStr (c # cs)) = Inr (JStr [c])"
| "py_first (JArr []) = Inl IndexError"
| "py_first (JStr []) = Inl IndexError"
| "py_first (JObj kvs) = Inl KeyError"
| "py_first _ = Inl TypeError"

text \<open>
  What a \<^verbatim>\<open>for\<close> over a value runs through: the elements of a list, the keys of a
  dict, the characters of a string; other values are not iterable.
\<close>

fun py_iter :: "json \<Rightarrow> error + json list" where
  "py_iter (JArr xs) = Inr xs"
| "py_iter (JObj kvs) = Inr (map (\<lambda>kv. JStr (fst kv)) kvs)"
| "py_iter (JStr s) = Inr (map (\<lambda>c. JStr [c]) s)"
| "py_iter _ = Inl TypeError"

section \<open>The pod health classifier\<close>

text \<open>
  \<^verbatim>\<open>any(container['ready'] is False for container in ...)\<close>: the entries are read in
  order and the scan stops at the first hit; an entry that cannot be read raises.
  \<^verbatim>\<open>is False\<close> holds for the boolean \<^verbatim>\<open>False\<close> alone.
\<close>

fun any_not_ready :: "json list \<Rightarrow> error + bool" where
  "any_not_ready [] = Inr False"
| "any_not_ready (container # rest) =
     then_do (py_getitem container ''ready'')
       (\<lambda>r. if r = JBool False then Inr True else any_not_ready rest)"

text \<open>
  \<^verbatim>\<open>condition['type'] == 'Ready' and condition['status'] == 'True'\<close>: the status is
  read only when the type is \<^verbatim>\<open>Ready\<close>.
\<close>

definition condition_ready :: "json \<Rightarrow> error + bool" where
  "condition_ready condition =
     then_do (py_getitem condition ''type'')
       (\<lambda>t. if py_eq t (JStr ''Ready'')
             then then_do (py_getitem condition ''status'') (\<lambda>s. Inr (py_eq s (JStr ''True'')))
             else Inr False)"

fun any_condition_ready :: "json list \<Rightarrow> error + bool" where
  "any_condition_ready [] = Inr False"
| "any_condition_ready (condition # rest) =
     then_do (condition_ready condition)
       (\<lambda>b. if b then Inr True else any_condition_ready rest)"

text \<open>The condition of the comprehension of \<^verbatim>\<open>not_running_pods\<close>, for one pod.\<close>

definition pod_not_running :: "json \<Rightarrow> error + bool" where
  "pod_not_running pod =
     then_do (py_get pod ''status'' (JObj [])) (\<lambda>st.
     then_do (py_get st ''containerStatuses'' JNull) (\<lambda>cs.
     if \<not> truthy cs then Inr True
     else
       then_do (py_getitem pod ''status'') (\<lambda>st1.
       then_do (py_getitem st1 ''containerStatuses'') (\<lambda>cs1.
       then_do (py_iter cs1) (\<lambda>containers.
       then_do (any_not_ready containers) (\<lambda>unready.
       if unready then Inr True
       else
         then_do (py_getitem pod ''status'') (\<lambda>st2.
         then_do (py_get st2 ''conditions'' (JArr [])) (\<lambda>cds.
         then_do (py_iter cds) (\<lambda>conditions.
         then_do (any_condition_ready conditions) (\<lambda>ready.
         Inr (\<not> ready)))))))))))"

text \<open>The comprehension: pods are tested in order, and the first exception ends it.\<close>

fun not_running_pods :: "json list \<Rightarrow> error + json list" where
  "not_running_pods [] = Inr []"
| "not_running_pods (pod # pods) =
     then_do (pod_not_running pod) (\<lambda>b.
     then_do (not_running_pods pods) (\<lambda>rest.
     Inr (if b then pod # rest else rest)))"

subsection \<open>The shape of a pod and the classification rule in words\<close>

definition field :: "json \<Rightarrow> string \<Rightarrow> json option" where
  "field v k = (case v of JObj kvs \<Rightarrow> map_of kvs k | _ \<Rightarrow> None)"

definition has_field :: "json \<Rightarrow> string \<Rightarrow> bool" where
  "has_field v k = (field v k \<noteq> None)"

text \<open>
  The \<open>status.containerStatuses\<close> of a pod, \<open>None\<close> when the pod has no status or the
  status has no such key, and its \<open>status.conditions\<close> likewise.
\<close>

definition container_statuses :: "json \<Rightarrow> json option" where
  "container_statuses pod =
     (case field pod ''status'' of None \<Rightarrow> None | Some st \<Rightarrow> field st ''containerStatuses'')"

definition conditions_of :: "json \<Rightarrow> json option" where
  "conditions_of pod =
     (case field pod ''status'' of None \<Rightarrow> None | Some st \<Rightarrow> field st ''conditions'')"

text \<open>The entries of a sequence that may be absent or null.\<close>

fun entries :: "json option \<Rightarrow> json list" where
  "entries (Some (JArr xs)) = xs"
| "entries _ = []"

text \<open>
  A pod of the shape the response of \<^verbatim>\<open>oc get pods -o json\<close> has: a dict whose
  \<open>status\<close>, when there is one, is a dict; \<open>containerStatuses\<close>, when there, is null or a
  list whose entries are dicts with a \<open>ready\<close> key; \<open>conditions\<close>, when there, is a list
  whose entries are dicts with a \<open>type\<close> and a \<open>status\<close> key.
\<close>

definition is_dict :: "json \<Rightarrow> bool" where
  "is_dict v = (case v of JObj kvs \<Rightarrow> True | _ \<Rightarrow> False)"

definition seq_of :: "(json \<Rightarrow> bool) \<Rightarrow> bool \<Rightarrow> json option \<Rightarrow> bool" where
  "seq_of ok nullable v =
     (case v of None \<Rightarrow> True
      | Some JNull \<Rightarrow> nullable
      | Some (JArr xs) \<Rightarrow> list_all ok xs
      | Some _ \<Rightarrow> False)"

definition well_shaped :: "json \<Rightarrow> bool" where
  "well_shaped pod =
     (is_dict pod \<and>
      (case field pod ''status'' of None \<Rightarrow> True | Some st \<Rightarrow> is_dict st) \<and>
      seq_of (\<lambda>c. has_field c ''ready'') True (container_statuses pod) \<and>
      seq_of (\<lambda>c. has_field c ''type'' \<and> has_field c ''status'') False (conditions_of pod))"

text \<open>The three reasons of the rule, each as it reads.\<close>

definition no_container_statuses :: "json \<Rightarrow> bool" where
  "no_container_statuses pod = (entries (container_statuses pod) = [])"

definition container_statuses_absent :: "json \<Rightarrow> bool" where
  "container_statuses_absent pod = (container_statuses pod = None)"

definition some_container_unready :: "json \<Rightarrow> bool" where
  "some_container_unready pod =
     list_ex (\<lambda>c. field c ''ready'' = Some (JBool False)) (entries (container_statuses pod))"

definition is_ready_condition :: "json \<Rightarrow> bool" where
  "is_ready_condition c =
     (field c ''type'' = Some (JStr ''Ready'') \<and> field c ''status'' = Some (JStr ''True''))"

definition no_ready_condition :: "json \<Rightarrow> bool" where
  "no_ready_condition pod = (\<not> list_ex is_ready_condition (entries (conditions_of pod)))"

text \<open>
  The rule that the code follows: a pod is not running when it has no container status
  at all (none listed, or the list is null or empty), or one that is not ready, or no
  condition that says \<open>Ready\<close> is \<open>True\<close>.
\<close>

definition not_running_rule :: "json \<Rightarrow> bool" where
  "not_running_rule pod =
     (no_container_statuses pod \<or> some_container_unready pod \<or> no_ready_condition pod)"

text \<open>
  What the scans meet on their way: a container status that passes the test of
  \<^verbatim>\<open>ready\<close> (it has the key, and its value is not \<^verbatim>\<open>False\<close>); a condition that is
  passed over without harm (it has a \<open>type\<close>, and either the type is not \<open>Ready\<close>, so
  that its status is never read, or it has a \<open>status\<close> that is not \<open>True\<close>); and a
  condition whose reading raises: one without \<open>type\<close>, or of type \<open>Ready\<close> without
  \<open>status\<close>.
\<close>

definition passes_ready_test :: "json \<Rightarrow> bool" where
  "passes_ready_test c = (has_field c ''ready'' \<and> field c ''ready'' \<noteq> Some (JBool False))"

definition passed_over :: "json \<Rightarrow> bool" where
  "passed_over c =
     (has_field c ''type'' \<and>
      (field c ''type'' \<noteq> Some (JStr ''Ready'') \<or>
       (has_field c ''status'' \<and> field c ''status'' \<noteq> Some (JStr ''True''))))"

definition unreadable_condition :: "json \<Rightarrow> bool" where
  "unreadable_condition c =
     (\<not> has_field c ''type'' \<or>
      (field c ''type'' = Some (JStr ''Ready'') \<and> \<not> has_field c ''status''))"

text \<open>Every container status says \<open>ready\<close> is true.\<close>

definition all_containers_ready :: "json \<Rightarrow> bool" where
  "all_containers_ready pod =
     list_all (\<lambda>c. field c ''ready'' = Some (JBool True)) (entries (container_statuses pod))"

section \<open>The variable resolver\<close>

text \<open>
  Modelled from the spec: \<^verbatim>\<open>get_var\<close> of the package \<^verbatim>\<open>openshift_checks\<close>, which
  \<^verbatim>\<open>logging.py\<close> imports and whose code is not among the sources. The spec has it as
  the "hierarchical lookup of configuration values by path, with default fallback",
  \<^verbatim>\<open>getVar(context, ...pathSegments, default=optional) -> value\<close>, which
  "raises/returns-default if unresolved". \<open>lookup_path\<close> is the lookup: one key after the
  other, each in the dict the key before gave.
\<close>

fun lookup_path :: "json \<Rightarrow> string list \<Rightarrow> json option" where
  "lookup_path v [] = Some v"
| "lookup_path v (k # ks) =
     (case field v k of None \<Rightarrow> None | Some w \<Rightarrow> lookup_path w ks)"

text \<open>
  Modelled from the spec: the resolver itself. A path that resolves gives its value,
  whatever it is; one that does not gives the default when the caller passed one. For
  the call without a default the spec has both readings: the interface "raises", the
  design of the reads "falls back ... rather than raising". What the resolver does
  then is the parameter \<open>unresolved\<close>: an exception, or the value it falls back to.
\<close>

type_synonym resolver = "string list \<Rightarrow> error + json"

definition get_var :: "resolver \<Rightarrow> json \<Rightarrow> string list \<Rightarrow> json option \<Rightarrow> error + json" where
  "get_var unresolved task_vars keys dflt =
     (case lookup_path task_vars keys of
        Some v \<Rightarrow> Inr v
      | None \<Rightarrow> (case dflt of Some d \<Rightarrow> Inr d | None \<Rightarrow> unresolved keys))"

section \<open>Node eligibility and activation\<close>

text \<open>
  \<^verbatim>\<open>hostname = get_var(task_vars, "ansible_ssh_host") or [None]\<close> and
  \<^verbatim>\<open>masters = get_var(task_vars, "groups", "masters", default=None) or [None]\<close>.
\<close>

definition resolved_hostname :: "resolver \<Rightarrow> json \<Rightarrow> error + json" where
  "resolved_hostname unresolved task_vars =
     then_do (get_var unresolved task_vars [''ansible_ssh_host''] None)
       (\<lambda>v. Inr (py_or v (JArr [JNull])))"

definition resolved_masters :: "resolver \<Rightarrow> json \<Rightarrow> error + json" where
  "resolved_masters unresolved task_vars =
     then_do (get_var unresolved task_vars [''groups'', ''masters''] (Some JNull))
       (\<lambda>v. Inr (py_or v (JArr [JNull])))"

text \<open>\<^verbatim>\<open>return masters and masters[0] == hostname\<close>.\<close>

definition is_first_master :: "resolver \<Rightarrow> json \<Rightarrow> error + json" where
  "is_first_master unresolved task_vars =
     then_do (resolved_hostname unresolved task_vars) (\<lambda>hostname.
     then_do (resolved_masters unresolved task_vars) (\<lambda>masters.
     if truthy masters
     then then_do (py_first masters) (\<lambda>first. Inr (JBool (py_eq first hostname)))
     else Inr masters))"

text \<open>
  \<^verbatim>\<open>is_active\<close>. The flag is read first; the chain of \<^verbatim>\<open>and\<close> then asks the base
  class, the eligibility filter and the flag, in this order, and gives the first
  operand that is not truthy, or the last one. The \<^verbatim>\<open>is_active\<close> of the base class
  \<^verbatim>\<open>OpenShiftCheck\<close> is not among the sources: it is the parameter
  \<open>super_is_active\<close>, a predicate of the task variables.
\<close>

definition is_active :: "resolver \<Rightarrow> (json \<Rightarrow> bool) \<Rightarrow> json \<Rightarrow> error + json" where
  "is_active unresolved super_is_active task_vars =
     then_do (get_var unresolved task_vars [''openshift_hosted_logging_deploy'']
                (Some (JBool False)))
       (\<lambda>logging_deployed.
     if \<not> super_is_active task_vars then Inr (JBool False)
     else then_do (is_first_master unresolved task_vars) (\<lambda>first_master.
       if \<not> truthy first_master then Inr first_master else Inr logging_deployed))"



section \<open>Running \<^verbatim>\<open>oc\<close>\<close>

text \<open>The argument dict handed to the module \<^verbatim>\<open>ocutil\<close>.\<close>

record oc_args =
  namespace :: string
  config_file :: string
  cmd :: string
  extra_args :: "json list"

text \<open>
  The executor: the name of the module, its arguments, the third argument (always
  \<^verbatim>\<open>None\<close> here) and the task variables; it gives the result dict of the module.
\<close>

type_synonym executor = "string \<Rightarrow> oc_args \<Rightarrow> json \<Rightarrow> json \<Rightarrow> (string \<times> json) list"

text \<open>
  \<^verbatim>\<open>os.path.join\<close> on POSIX: a component that starts with a slash replaces what came
  before, otherwise it is appended, after a slash unless the path is empty or ends
  with one. A first component that is not a string has no \<^verbatim>\<open>endswith\<close>
  (\<^verbatim>\<open>AttributeError\<close>; a \<^verbatim>\<open>TypeError\<close> under Python 3).
\<close>

definition join_step :: "string \<Rightarrow> string \<Rightarrow> string" where
  "join_step path b =
     (if b \<noteq> [] \<and> hd b = CHR ''/'' then b
      else if path = [] \<or> last path = CHR ''/'' then path @ b
      else path @ ''/'' @ b)"

definition os_path_join :: "json \<Rightarrow> string list \<Rightarrow> error + string" where
  "os_path_join a p =
     (case a of JStr s \<Rightarrow> Inr (foldl join_step s p) | _ \<Rightarrow> Inl AttributeError)"

text \<open>
  \<^verbatim>\<open>'{error}'.format(error=v)\<close>: a string is put in as it is; for any other value
  Python's \<^verbatim>\<open>str\<close> decides, which is the parameter \<open>render\<close>.
\<close>

definition format_value :: "(json \<Rightarrow> string) \<Rightarrow> json \<Rightarrow> string" where
  "format_value render v = (case v of JStr s \<Rightarrow> s | _ \<Rightarrow> render v)"

definition unexpected_error_msg :: "string \<Rightarrow> string \<Rightarrow> string" where
  "unexpected_error_msg c e =
     ''Unexpected error using `oc` to validate the logging stack components.\<newline>'' @
     ''Error executing `oc '' @ c @ ''`:\<newline>'' @ e"

definition no_such_file :: string where
  "no_such_file = ''[Errno 2] No such file or directory''"

definition missing_oc_msg :: string where
  "missing_oc_msg =
     ''This host is supposed to be a master but does not have the `oc` command where expected.\<newline>'' @
     ''Has an installation been run on this host yet?''"

text \<open>
  The first half of \<^verbatim>\<open>exec_oc\<close>: the arguments are put together (an \<^verbatim>\<open>extra_args\<close>
  that is not truthy gives the empty list), and the module \<^verbatim>\<open>ocutil\<close> is run. The
  base directory is read without a default.
\<close>

definition build_args :: "string \<Rightarrow> string \<Rightarrow> string \<Rightarrow> json list option \<Rightarrow> oc_args" where
  "build_args ns path cmd_str extra =
     \<lparr> namespace = ns, config_file = path, cmd = cmd_str,
       extra_args = (case extra of None \<Rightarrow> [] | Some xs \<Rightarrow> if xs \<noteq> [] then xs else []) \<rparr>"

definition ocutil_result ::
  "resolver \<Rightarrow> executor \<Rightarrow> string \<Rightarrow> string \<Rightarrow> json list option \<Rightarrow> json
     \<Rightarrow> error + (string \<times> json) list" where
  "ocutil_result unresolved execute_module ns cmd_str extra task_vars =
     then_do (get_var unresolved task_vars [''openshift'', ''common'', ''config_base''] None)
       (\<lambda>config_base.
     then_do (os_path_join config_base [''master'', ''admin.kubeconfig'']) (\<lambda>path.
     Inr (execute_module ''ocutil'' (build_args ns path cmd_str extra) JNull task_vars)))"

text \<open>
  \<^verbatim>\<open>exec_oc\<close>. On a failed result the message is formatted from \<^verbatim>\<open>result['result']\<close>
  first, then replaced when that text is the one of a missing file, and raised; the
  other results give \<^verbatim>\<open>result.get("result", "")\<close>. The command in the message is
  \<^verbatim>\<open>args['cmd']\<close>, which is \<^verbatim>\<open>cmd_str\<close>.
\<close>

definition exec_oc ::
  "resolver \<Rightarrow> (json \<Rightarrow> string) \<Rightarrow> executor \<Rightarrow> string \<Rightarrow> string \<Rightarrow> json list option \<Rightarrow> json
     \<Rightarrow> error + json" where
  "exec_oc unresolved render execute_module ns cmd_str extra task_vars =
     then_do (ocutil_result unresolved execute_module ns cmd_str extra task_vars) (\<lambda>r.
     let result = JObj r
     in then_do (py_get result ''failed'' JNull) (\<lambda>failed.
        if truthy failed
        then then_do (py_getitem result ''result'') (\<lambda>err.
             let msg = unexpected_error_msg cmd_str (format_value render err)
             in then_do (py_getitem result ''result'') (\<lambda>err1.
                Inl (OpenShiftCheckException
                      (if py_eq err1 (JStr no_such_file) then missing_oc_msg else msg))))
        else py_get result ''result'' (JStr [])))"

text \<open>The two fields of a result as \<^verbatim>\<open>exec_oc\<close> reads them.\<close>

definition failed_flag :: "(string \<times> json) list \<Rightarrow> bool" where
  "failed_flag r = truthy (case map_of r ''failed'' of None \<Rightarrow> JNull | Some v \<Rightarrow> v)"

definition output_field :: "(string \<times> json) list \<Rightarrow> json" where
  "output_field r = (case map_of r ''result'' of None \<Rightarrow> JStr [] | Some v \<Rightarrow> v)"

definition is_domain_error :: "error + 'a \<Rightarrow> bool" where
  "is_domain_error x =
     (case x of Inl (OpenShiftCheckException m) \<Rightarrow> True | _ \<Rightarrow> False)"

section \<open>The pods of a component\<close>

definition no_pods_msg :: "string \<Rightarrow> string" where
  \<open>no_pods_msg logging_component =
     ''No pods were found for the "'' @ logging_component @ ''" logging component.''\<close>

text \<open>
  \<^verbatim>\<open>json.loads\<close> is the parameter \<open>json_loads\<close>, \<open>None\<close> where it raises
  \<^verbatim>\<open>ValueError\<close>; it is given strings only (anything else is a \<^verbatim>\<open>TypeError\<close>, which
  the \<^verbatim>\<open>except ValueError\<close> does not catch, as it does not catch the
  \<^verbatim>\<open>AttributeError\<close> of a \<^verbatim>\<open>.get\<close> on a parsed value that is no dict).
  The function returns a pair, one half of it \<^verbatim>\<open>None\<close>.
\<close>

definition pods_query :: "string \<Rightarrow> string" where
  "pods_query logging_component = ''get pods -l component='' @ logging_component @ '' -o json''"

definition get_pods_for_component ::
  "resolver \<Rightarrow> (string \<Rightarrow> json option) \<Rightarrow> (json \<Rightarrow> string) \<Rightarrow> executor \<Rightarrow> string \<Rightarrow> string
     \<Rightarrow> json \<Rightarrow> error + (json option \<times> string option)" where
  "get_pods_for_component unresolved json_loads render execute_module ns logging_component
       task_vars =
     then_do (exec_oc unresolved render execute_module ns (pods_query logging_component)
                (Some []) task_vars)
       (\<lambda>pod_output.
     case pod_output of
       JStr text \<Rightarrow>
         (case json_loads text of
            None \<Rightarrow> Inr (None, Some (no_pods_msg logging_component))
          | Some pods \<Rightarrow>
              if \<not> truthy pods then Inr (None, Some (no_pods_msg logging_component))
              else then_do (py_get pods ''items'' JNull) (\<lambda>items.
                   if \<not> truthy items then Inr (None, Some (no_pods_msg logging_component))
                   else then_do (py_getitem pods ''items'') (\<lambda>found. Inr (Some found, None))))
     | _ \<Rightarrow> Inl TypeError)"

section \<open>Proofs\<close>

subsection \<open>Sequencing and lookups\<close>

lemma py_eq_JStr [simp]: "py_eq v (JStr s) = (v = JStr s)"
  by (cases v) auto

lemma then_do_Inr [simp]: "then_do (Inr v) f = f v"
  by (simp add: then_do_def)

lemma then_do_Inl [simp]: "then_do (Inl e) f = Inl e"
  by (simp add: then_do_def)

lemma then_do_eq_Inr: "then_do m f = Inr y \<longleftrightarrow> (\<exists>v. m = Inr v \<and> f v = Inr y)"
  by (cases m) auto

lemma has_field_getitem: "has_field c k \<Longrightarrow> py_getitem c k = Inr (the (field c k))"
  by (cases c) (auto simp: has_field_def field_def)

lemma no_field_getitem: "is_dict c \<Longrightarrow> \<not> has_field c k \<Longrightarrow> py_getitem c k = Inl KeyError"
  by (cases c) (auto simp: has_field_def field_def is_dict_def)

subsection \<open>The classifier on well-shaped pods\<close>

lemma any_not_ready_shaped:
  "list_all (\<lambda>c. has_field c ''ready'') cs \<Longrightarrow>
   any_not_ready cs = Inr (list_ex (\<lambda>c. field c ''ready'' = Some (JBool False)) cs)"
  by (induction cs) (auto simp: has_field_getitem has_field_def)

lemma condition_ready_shaped:
  "has_field c ''type'' \<Longrightarrow> has_field c ''status'' \<Longrightarrow>
   condition_ready c = Inr (is_ready_condition c)"
  by (auto simp: condition_ready_def has_field_getitem is_ready_condition_def has_field_def)

lemma any_condition_ready_shaped:
  "list_all (\<lambda>c. has_field c ''type'' \<and> has_field c ''status'') cds \<Longrightarrow>
   any_condition_ready cds = Inr (list_ex is_ready_condition cds)"
  by (induction cds) (auto simp: condition_ready_shaped)

lemma pod_not_running_shaped:
  assumes "well_shaped pod"
  shows "pod_not_running pod = Inr (not_running_rule pod)"
proof -
  from assms obtain kvs where pod: "pod = JObj kvs"
    by (cases pod) (auto simp: well_shaped_def is_dict_def)
  show ?thesis
  proof (cases "map_of kvs ''status''")
    case None
    then show ?thesis
      by (simp add: pod pod_not_running_def not_running_rule_def no_container_statuses_def
          container_statuses_def field_def)
  next
    case (Some st)
    with assms pod obtain skvs where st: "st = JObj skvs"
      by (cases st) (auto simp: well_shaped_def is_dict_def field_def)
    have cs: "seq_of (\<lambda>c. has_field c ''ready'') True (map_of skvs ''containerStatuses'')"
      and cds: "seq_of (\<lambda>c. has_field c ''type'' \<and> has_field c ''status'') False
                  (map_of skvs ''conditions'')"
      using assms
      by (simp_all add: well_shaped_def pod Some st container_statuses_def conditions_of_def
          field_def)
    show ?thesis
      using cs cds
      by (auto simp: pod Some st pod_not_running_def not_running_rule_def
          no_container_statuses_def some_container_unready_def no_ready_condition_def
          container_statuses_def conditions_of_def field_def seq_of_def
          any_not_ready_shaped any_condition_ready_shaped
          split: option.splits json.splits)
  qed
qed

lemma not_running_pods_filter:
  "not_running_pods pods = Inr r \<Longrightarrow> r = filter (\<lambda>p. pod_not_running p = Inr True) pods"
proof (induction pods arbitrary: r)
  case Nil
  then show ?case by simp
next
  case (Cons pod pods)
  from Cons.prems obtain b rest where
    b: "pod_not_running pod = Inr b" and rest: "not_running_pods pods = Inr rest"
    and r: "r = (if b then pod # rest else rest)"
    by (auto simp: then_do_eq_Inr)
  from Cons.IH [OF rest] b r show ?case by auto
qed

lemma not_running_pods_shaped:
  "list_all well_shaped pods \<Longrightarrow> not_running_pods pods = Inr (filter not_running_rule pods)"
  by (induction pods) (auto simp: pod_not_running_shaped)

lemma not_running_pods_raises:
  "list_all well_shaped pre \<Longrightarrow> pod_not_running p = Inl e \<Longrightarrow>
   not_running_pods (pre @ p # post) = Inl e"
  by (induction pre) (auto simp: pod_not_running_shaped)

lemma any_not_ready_raises:
  "list_all passes_ready_test pre \<Longrightarrow> is_dict c \<Longrightarrow> \<not> has_field c ''ready'' \<Longrightarrow>
   any_not_ready (pre @ c # post) = Inl KeyError"
  by (induction pre)
    (auto simp: passes_ready_test_def has_field_getitem no_field_getitem has_field_def)

lemma any_not_ready_passes:
  "list_all passes_ready_test cs \<Longrightarrow> any_not_ready cs = Inr False"
  by (induction cs) (auto simp: passes_ready_test_def has_field_getitem has_field_def)

lemma condition_ready_raises:
  "is_dict c \<Longrightarrow> unreadable_condition c \<Longrightarrow> condition_ready c = Inl KeyError"
  by (auto simp: unreadable_condition_def condition_ready_def no_field_getitem
      has_field_getitem has_field_def)

lemma condition_ready_passed_over: "passed_over c \<Longrightarrow> condition_ready c = Inr False"
  by (auto simp: passed_over_def condition_ready_def has_field_getitem has_field_def)

lemma condition_ready_found: "is_ready_condition c \<Longrightarrow> condition_ready c = Inr True"
  by (simp add: is_ready_condition_def condition_ready_def has_field_getitem has_field_def)

lemma any_condition_ready_raises:
  "list_all passed_over pre \<Longrightarrow> is_dict c \<Longrightarrow> unreadable_condition c \<Longrightarrow>
   any_condition_ready (pre @ c # post) = Inl KeyError"
  by (induction pre) (auto simp: condition_ready_passed_over condition_ready_raises)

lemma any_condition_ready_found:
  "list_all passed_over pre \<Longrightarrow> is_ready_condition c \<Longrightarrow>
   any_condition_ready (pre @ c # post) = Inr True"
  by (induction pre) (auto simp: condition_ready_passed_over condition_ready_found)

lemma any_condition_ready_none:
  "list_all passed_over cds \<Longrightarrow> any_condition_ready cds = Inr False"
  by (induction cds) (auto simp: condition_ready_passed_over)

lemma any_not_ready_found:
  "list_all passes_ready_test pre \<Longrightarrow> field c ''ready'' = Some (JBool False) \<Longrightarrow>
   any_not_ready (pre @ c # post) = Inr True"
  by (induction pre)
    (auto simp: passes_ready_test_def has_field_getitem has_field_def)

lemma container_statuses_SomeD:
  assumes "container_statuses p = Some v"
  obtains kvs skvs where "p = JObj kvs" "map_of kvs ''status'' = Some (JObj skvs)"
    "map_of skvs ''containerStatuses'' = Some v"
  using assms
  by (auto simp: container_statuses_def field_def split: option.splits json.splits)

lemma pod_raises_at_container:
  assumes "container_statuses p = Some (JArr (pre @ c # post))"
    and "list_all passes_ready_test pre" "is_dict c" "\<not> has_field c ''ready''"
  shows "pod_not_running p = Inl KeyError"
proof -
  from assms(1) obtain kvs skvs where "p = JObj kvs" "map_of kvs ''status'' = Some (JObj skvs)"
    "map_of skvs ''containerStatuses'' = Some (JArr (pre @ c # post))"
    by (rule container_statuses_SomeD)
  then show ?thesis
    by (simp add: pod_not_running_def any_not_ready_raises [OF assms(2-4)])
qed

lemma pod_raises_at_condition:
  assumes "container_statuses p = Some (JArr cs)" "cs \<noteq> []" "list_all passes_ready_test cs"
    and "conditions_of p = Some (JArr (pre @ c # post))"
    and "list_all passed_over pre" "is_dict c" "unreadable_condition c"
  shows "pod_not_running p = Inl KeyError"
proof -
  from assms(1) obtain kvs skvs where p: "p = JObj kvs" "map_of kvs ''status'' = Some (JObj skvs)"
    "map_of skvs ''containerStatuses'' = Some (JArr cs)"
    by (rule container_statuses_SomeD)
  with assms(4) have "map_of skvs ''conditions'' = Some (JArr (pre @ c # post))"
    by (simp add: conditions_of_def field_def)
  with p assms(2) show ?thesis
    by (simp add: pod_not_running_def any_not_ready_passes [OF assms(3)]
        any_condition_ready_raises [OF assms(5-7)])
qed


lemma conditions_of_SomeD:
  assumes "container_statuses p = Some w" "conditions_of p = Some v"
  obtains kvs skvs where "p = JObj kvs" "map_of kvs ''status'' = Some (JObj skvs)"
    "map_of skvs ''containerStatuses'' = Some w" "map_of skvs ''conditions'' = Some v"
  using assms
  by (auto simp: container_statuses_def conditions_of_def field_def
      split: option.splits json.splits)

lemma pod_stops_at_container:
  assumes "container_statuses p = Some (JArr (pre @ c # post))"
    and "list_all passes_ready_test pre" "field c ''ready'' = Some (JBool False)"
  shows "pod_not_running p = Inr True"
proof -
  from assms(1) obtain kvs skvs where "p = JObj kvs" "map_of kvs ''status'' = Some (JObj skvs)"
    "map_of skvs ''containerStatuses'' = Some (JArr (pre @ c # post))"
    by (rule container_statuses_SomeD)
  then show ?thesis
    by (simp add: pod_not_running_def any_not_ready_found [OF assms(2,3)])
qed

lemma pod_stops_at_condition:
  assumes "container_statuses p = Some (JArr cs)" "cs \<noteq> []" "list_all passes_ready_test cs"
    and "conditions_of p = Some (JArr (pre @ c # post))"
    and "list_all passed_over pre" "is_ready_condition c"
  shows "pod_not_running p = Inr False"
proof -
  from assms(1,4) obtain kvs skvs where "p = JObj kvs" "map_of kvs ''status'' = Some (JObj skvs)"
    "map_of skvs ''containerStatuses'' = Some (JArr cs)"
    "map_of skvs ''conditions'' = Some (JArr (pre @ c # post))"
    by (rule conditions_of_SomeD)
  with assms(2) show ?thesis
    by (simp add: pod_not_running_def any_not_ready_passes [OF assms(3)]
        any_condition_ready_found [OF assms(5,6)])
qed

lemma pod_passes_all_conditions:
  assumes "container_statuses p = Some (JArr cs)" "cs \<noteq> []" "list_all passes_ready_test cs"
    and "conditions_of p = Some (JArr cds)" "list_all passed_over cds"
  shows "pod_not_running p = Inr True"
proof -
  from assms(1,4) obtain kvs skvs where "p = JObj kvs" "map_of kvs ''status'' = Some (JObj skvs)"
    "map_of skvs ''containerStatuses'' = Some (JArr cs)"
    "map_of skvs ''conditions'' = Some (JArr cds)"
    by (rule conditions_of_SomeD)
  with assms(2) show ?thesis
    by (simp add: pod_not_running_def any_not_ready_passes [OF assms(3)]
        any_condition_ready_none [OF assms(5)])
qed

subsection \<open>The claims on the classifier\<close>

text \<open>
  C1 (as amended). For every list of well-shaped pods, \<open>not_running_pods\<close> returns, and a
  pod is in its result if and only if it is in the list and at least one of these
  holds: it has no container status (the key \<open>containerStatuses\<close> is absent, or its value
  is null or the empty list), some container status has \<open>ready\<close> false, or no condition
  has type \<open>Ready\<close> and status \<open>True\<close> at once.
\<close>

theorem not_running_iff_rule:
  "list_all well_shaped pods \<Longrightarrow>
   \<exists>r. not_running_pods pods = Inr r \<and>
       (\<forall>p. p \<in> set r \<longleftrightarrow>
            p \<in> set pods \<and>
            (no_container_statuses p \<or> some_container_unready p \<or> no_ready_condition p))"
  by (auto simp: not_running_pods_shaped not_running_rule_def)

theorem not_running_iff_rule_witness:
  "list_all well_shaped
     [JObj [(''status'', JObj [(''containerStatuses'', JArr [JObj [(''ready'', JBool True)]]),
                               (''conditions'', JArr [JObj [(''type'', JStr ''Ready''),
                                                            (''status'', JStr ''True'')]])])],
      JObj []] \<and>
   (\<exists>r. not_running_pods
     [JObj [(''status'', JObj [(''containerStatuses'', JArr [JObj [(''ready'', JBool True)]]),
                               (''conditions'', JArr [JObj [(''type'', JStr ''Ready''),
                                                            (''status'', JStr ''True'')]])])],
      JObj []] = Inr r \<and> JObj [] \<in> set r)"
proof -
  let ?pods = "[JObj [(''status'', JObj [(''containerStatuses'', JArr [JObj [(''ready'', JBool True)]]),
                               (''conditions'', JArr [JObj [(''type'', JStr ''Ready''),
                                                            (''status'', JStr ''True'')]])])],
      JObj []]"
  have h: "list_all well_shaped ?pods"
    by (simp add: well_shaped_def is_dict_def field_def seq_of_def container_statuses_def
        conditions_of_def has_field_def)
  have n: "no_container_statuses (JObj [])"
    by (simp add: no_container_statuses_def container_statuses_def field_def)
  from not_running_iff_rule [OF h] n have "\<exists>r. not_running_pods ?pods = Inr r \<and> JObj [] \<in> set r"
    by auto
  with h show ?thesis by blast
qed

text \<open>
  C1 as stated, with "no containerStatuses present" read as the key being absent, fails
  on a pod whose \<open>containerStatuses\<close> is the empty list and which has the \<open>Ready\<close>
  condition: none of the three reasons holds, and the pod is reported.
\<close>

theorem not_running_stated_counterexample:
  "(let pod = JObj [(''status'', JObj [(''containerStatuses'', JArr []),
                                       (''conditions'', JArr [JObj [(''type'', JStr ''Ready''),
                                                                    (''status'', JStr ''True'')]])])]
    in well_shaped pod \<and>
       \<not> (container_statuses_absent pod \<or> some_container_unready pod \<or> no_ready_condition pod) \<and>
       not_running_pods [pod] = Inr [pod])"
  by (simp add: Let_def well_shaped_def is_dict_def field_def seq_of_def container_statuses_def
      conditions_of_def has_field_def container_statuses_absent_def some_container_unready_def
      no_ready_condition_def is_ready_condition_def pod_not_running_def)

text \<open>
  C8 (as amended). In a list of well-shaped pods, a pod that has at least one container
  status, every container status with \<open>ready\<close> true, and at least one condition with
  type \<open>Ready\<close> and status \<open>True\<close>, is not in the result of \<open>not_running_pods\<close>.
\<close>

theorem ready_pod_excluded:
  "list_all well_shaped pods \<Longrightarrow> p \<in> set pods \<Longrightarrow>
   entries (container_statuses p) \<noteq> [] \<Longrightarrow> all_containers_ready p \<Longrightarrow>
   list_ex is_ready_condition (entries (conditions_of p)) \<Longrightarrow>
   \<exists>r. not_running_pods pods = Inr r \<and> p \<notin> set r"
  by (auto simp: not_running_pods_shaped not_running_rule_def no_container_statuses_def
      some_container_unready_def no_ready_condition_def all_containers_ready_def
      list_all_iff list_ex_iff)

theorem ready_pod_excluded_witness:
  "(let p = JObj [(''status'',
              JObj [(''containerStatuses'', JArr [JObj [(''ready'', JBool True)]]),
                    (''conditions'', JArr [JObj [(''type'', JStr ''Ready''),
                                                 (''status'', JStr ''True'')]])])]
    in list_all well_shaped [JObj [], p] \<and> p \<in> set [JObj [], p] \<and>
       entries (container_statuses p) \<noteq> [] \<and> all_containers_ready p \<and>
       list_ex is_ready_condition (entries (conditions_of p)) \<and>
       (\<exists>r. not_running_pods [JObj [], p] = Inr r \<and> p \<notin> set r))"
proof -
  let ?p = "JObj [(''status'',
              JObj [(''containerStatuses'', JArr [JObj [(''ready'', JBool True)]]),
                    (''conditions'', JArr [JObj [(''type'', JStr ''Ready''),
                                                 (''status'', JStr ''True'')]])])]"
  have h1: "list_all well_shaped [JObj [], ?p]"
    by (simp add: well_shaped_def is_dict_def field_def seq_of_def container_statuses_def
        conditions_of_def has_field_def)
  have h2: "?p \<in> set [JObj [], ?p]" by simp
  have h3: "entries (container_statuses ?p) \<noteq> []"
    by (simp add: container_statuses_def field_def)
  have h4: "all_containers_ready ?p"
    by (simp add: all_containers_ready_def container_statuses_def field_def)
  have h5: "list_ex is_ready_condition (entries (conditions_of ?p))"
    by (simp add: conditions_of_def field_def is_ready_condition_def)
  from ready_pod_excluded [OF h1 h2 h3 h4 h5] h1 h2 h3 h4 h5 show ?thesis
    unfolding Let_def by blast
qed

text \<open>
  C8 as stated fails where the sequence of container statuses is empty: every container
  status is ready, vacuously, the \<open>Ready\<close> condition is there, and the pod is reported
  all the same, next to a pod that is not.
\<close>

theorem ready_pod_excluded_counterexample:
  "(let q = JObj [(''status'',
              JObj [(''containerStatuses'', JArr [JObj [(''ready'', JBool True)]]),
                    (''conditions'', JArr [JObj [(''type'', JStr ''Ready''),
                                                 (''status'', JStr ''True'')]])])];
        p = JObj [(''metadata'', JObj [(''name'', JStr ''logging-es-1'')]),
                  (''status'',
              JObj [(''containerStatuses'', JArr []),
                    (''conditions'', JArr [JObj [(''type'', JStr ''Ready''),
                                                 (''status'', JStr ''True'')]])])]
    in all_containers_ready p \<and> list_ex is_ready_condition (entries (conditions_of p)) \<and>
       not_running_pods [q, p] = Inr [p])"
  by (simp add: Let_def all_containers_ready_def container_statuses_def conditions_of_def
      field_def is_ready_condition_def pod_not_running_def condition_ready_def)

text \<open>
  C9. Whenever \<open>not_running_pods\<close> returns, its result is the input list filtered by the
  test of the comprehension: a subsequence of the input, with the pods as they were
  and in their order; and on well-shaped pods it does return. The function is a value
  of its argument alone, which it cannot change.
\<close>

theorem not_running_pods_pure_filter:
  "(not_running_pods pods = Inr r \<longrightarrow>
      r = filter (\<lambda>p. pod_not_running p = Inr True) pods \<and> subseq r pods \<and>
      set r \<subseteq> set pods \<and> (\<forall>p. count_list r p \<le> count_list pods p)) \<and>
   (list_all well_shaped pods \<longrightarrow> (\<exists>r'. not_running_pods pods = Inr r'))"
proof (intro conjI impI)
  assume a: "not_running_pods pods = Inr r"
  then show f: "r = filter (\<lambda>p. pod_not_running p = Inr True) pods"
    by (rule not_running_pods_filter)
  then show s: "subseq r pods" by simp
  from f show "set r \<subseteq> set pods" by auto
  have "count_list (filter P xs) p \<le> count_list xs p" for P and xs :: "json list" and p
    by (induction xs) auto
  with f show "\<forall>p. count_list r p \<le> count_list pods p" by simp
next
  assume "list_all well_shaped pods"
  then show "\<exists>r'. not_running_pods pods = Inr r'"
    by (simp add: not_running_pods_shaped)
qed

theorem not_running_pods_pure_filter_witness:
  "(let a = JObj []; b = JObj [(''status'',
              JObj [(''containerStatuses'', JArr [JObj [(''ready'', JBool True)]]),
                    (''conditions'', JArr [JObj [(''type'', JStr ''Ready''),
                                                 (''status'', JStr ''True'')]])])];
        c = JObj [(''status'', JObj [(''containerStatuses'', JArr [JObj [(''ready'', JBool False)]])])]
    in not_running_pods [a, b, c, a] = Inr [a, c, a] \<and> list_all well_shaped [a, b, c, a] \<and>
       subseq [a, c, a] [a, b, c, a] \<and> set [a, c, a] \<subseteq> set [a, b, c, a])"
proof -
  let ?a = "JObj []"
  let ?b = "JObj [(''status'',
              JObj [(''containerStatuses'', JArr [JObj [(''ready'', JBool True)]]),
                    (''conditions'', JArr [JObj [(''type'', JStr ''Ready''),
                                                 (''status'', JStr ''True'')]])])]"
  let ?c = "JObj [(''status'', JObj [(''containerStatuses'', JArr [JObj [(''ready'', JBool False)]])])]"
  have h1: "not_running_pods [?a, ?b, ?c, ?a] = Inr [?a, ?c, ?a]"
    by (simp add: pod_not_running_def condition_ready_def)
  have h2: "list_all well_shaped [?a, ?b, ?c, ?a]"
    by (simp add: well_shaped_def is_dict_def field_def seq_of_def container_statuses_def
        conditions_of_def has_field_def)
  from not_running_pods_pure_filter [of "[?a, ?b, ?c, ?a]" "[?a, ?c, ?a]"] h1 h2
  show ?thesis unfolding Let_def by blast
qed

text \<open>
  C10 (as amended). \<open>not_running_pods\<close> returns on every list of well-shaped pods: each
  a dict, its \<open>status\<close>, if any, a dict, its \<open>containerStatuses\<close>, if any, null or a list
  of dicts that have \<open>ready\<close>, its \<open>conditions\<close>, if any, a list of dicts that have \<open>type\<close>
  and \<open>status\<close>. It fails with a \<^verbatim>\<open>KeyError\<close> where a scan reaches an entry it cannot
  read, the pods before being well-shaped: a container status that is a dict without
  \<open>ready\<close>, when the ones before it pass the test; or, in a pod that has container
  statuses which all pass the test, a condition that is a dict without \<open>type\<close>, or of
  type \<open>Ready\<close> without \<open>status\<close>, when the ones before it are passed over. What a scan
  does not reach raises nothing, whatever it is: the entries behind a container
  status whose \<open>ready\<close> is \<open>False\<close> (the pod is reported), the entries behind a condition
  that says \<open>Ready\<close> is \<open>True\<close> (the pod is not reported), and all the conditions of a pod
  whose \<open>containerStatuses\<close> is empty or null (the pod is reported). A condition of
  another type without \<open>status\<close> is passed over like any other: a pod whose container
  statuses pass and whose conditions are all passed over is reported.
\<close>

theorem classifier_total_or_lookup_error:
  "(list_all well_shaped pods \<longrightarrow> (\<exists>r. not_running_pods pods = Inr r)) \<and>
   (list_all well_shaped before \<and> container_statuses p = Some (JArr (pre @ c # post)) \<and>
    list_all passes_ready_test pre \<and> is_dict c \<and> \<not> has_field c ''ready'' \<longrightarrow>
      not_running_pods (before @ p # after) = Inl KeyError) \<and>
   (list_all well_shaped before \<and> container_statuses q = Some (JArr cs) \<and> cs \<noteq> [] \<and>
    list_all passes_ready_test cs \<and> conditions_of q = Some (JArr (pre' @ d # post')) \<and>
    list_all passed_over pre' \<and> is_dict d \<and> unreadable_condition d \<longrightarrow>
      not_running_pods (before @ q # after) = Inl KeyError) \<and>
   (container_statuses p = Some (JArr (pre @ c # post)) \<and> list_all passes_ready_test pre \<and>
    field c ''ready'' = Some (JBool False) \<longrightarrow>
      pod_not_running p = Inr True) \<and>
   (container_statuses q = Some (JArr cs) \<and> cs \<noteq> [] \<and> list_all passes_ready_test cs \<and>
    conditions_of q = Some (JArr (pre' @ d # post')) \<and> list_all passed_over pre' \<and>
    is_ready_condition d \<longrightarrow>
      pod_not_running q = Inr False) \<and>
   (container_statuses q = Some (JArr cs) \<and> cs \<noteq> [] \<and> list_all passes_ready_test cs \<and>
    conditions_of q = Some (JArr cds) \<and> list_all passed_over cds \<longrightarrow>
      pod_not_running q = Inr True) \<and>
   (container_statuses e = Some (JArr []) \<or> container_statuses e = Some JNull \<longrightarrow>
      pod_not_running e = Inr True)"
proof (intro conjI impI)
  assume "list_all well_shaped pods"
  then show "\<exists>r. not_running_pods pods = Inr r"
    by (simp add: not_running_pods_shaped)
next
  assume a: "list_all well_shaped before \<and> container_statuses p = Some (JArr (pre @ c # post)) \<and>
    list_all passes_ready_test pre \<and> is_dict c \<and> \<not> has_field c ''ready''"
  then have "pod_not_running p = Inl KeyError"
    by (blast intro: pod_raises_at_container)
  with a show "not_running_pods (before @ p # after) = Inl KeyError"
    by (blast intro: not_running_pods_raises)
next
  assume a: "list_all well_shaped before \<and> container_statuses q = Some (JArr cs) \<and> cs \<noteq> [] \<and>
    list_all passes_ready_test cs \<and> conditions_of q = Some (JArr (pre' @ d # post')) \<and>
    list_all passed_over pre' \<and> is_dict d \<and> unreadable_condition d"
  then have "pod_not_running q = Inl KeyError"
    by (blast intro: pod_raises_at_condition)
  with a show "not_running_pods (before @ q # after) = Inl KeyError"
    by (blast intro: not_running_pods_raises)
next
  assume "container_statuses p = Some (JArr (pre @ c # post)) \<and> list_all passes_ready_test pre \<and>
    field c ''ready'' = Some (JBool False)"
  then show "pod_not_running p = Inr True"
    by (blast intro: pod_stops_at_container)
next
  assume "container_statuses q = Some (JArr cs) \<and> cs \<noteq> [] \<and> list_all passes_ready_test cs \<and>
    conditions_of q = Some (JArr (pre' @ d # post')) \<and> list_all passed_over pre' \<and>
    is_ready_condition d"
  then show "pod_not_running q = Inr False"
    by (blast intro: pod_stops_at_condition)
next
  assume "container_statuses q = Some (JArr cs) \<and> cs \<noteq> [] \<and> list_all passes_ready_test cs \<and>
    conditions_of q = Some (JArr cds) \<and> list_all passed_over cds"
  then show "pod_not_running q = Inr True"
    by (blast intro: pod_passes_all_conditions)
next
  assume "container_statuses e = Some (JArr []) \<or> container_statuses e = Some JNull"
  then show "pod_not_running e = Inr True"
    by (auto elim!: container_statuses_SomeD simp: pod_not_running_def)
qed


theorem classifier_total_or_lookup_error_witness:
  "(let ok = JObj [(''ready'', JBool True)];
        bad = JObj [(''ready'', JBool False)];
        untyped = JObj [];
        other = JObj [(''type'', JStr ''Initialized'')];
        rdy = JObj [(''type'', JStr ''Ready''), (''status'', JStr ''True'')];
        pod = (\<lambda>cs cds. JObj [(''status'', JObj [(''containerStatuses'', JArr cs),
                                                 (''conditions'', JArr cds)])])
    in (\<exists>r. not_running_pods [JObj []] = Inr r) \<and>
       not_running_pods [JObj [], pod [ok, untyped, ok] []] = Inl KeyError \<and>
       not_running_pods [JObj [], pod [ok] [other, untyped]] = Inl KeyError \<and>
       pod_not_running (pod [ok, bad, untyped] [untyped]) = Inr True \<and>
       pod_not_running (pod [ok] [other, rdy, untyped]) = Inr False \<and>
       pod_not_running (pod [ok] [other, other]) = Inr True \<and>
       pod_not_running (pod [] [untyped]) = Inr True)"
proof -
  let ?ok = "JObj [(''ready'', JBool True)]"
  let ?bad = "JObj [(''ready'', JBool False)]"
  let ?other = "JObj [(''type'', JStr ''Initialized'')]"
  let ?rdy = "JObj [(''type'', JStr ''Ready''), (''status'', JStr ''True'')]"
  let ?pod = "\<lambda>cs cds. JObj [(''status'', JObj [(''containerStatuses'', JArr cs),
                                                 (''conditions'', JArr cds)])]"
  note t = classifier_total_or_lookup_error
  have w: "list_all well_shaped [JObj []]"
    by (simp add: well_shaped_def is_dict_def field_def seq_of_def container_statuses_def
        conditions_of_def)
  have cs: "container_statuses (?pod cs cds) = Some (JArr cs)"
    and cds: "conditions_of (?pod cs cds) = Some (JArr cds)" for cs cds
    by (simp_all add: container_statuses_def conditions_of_def field_def)
  have ok: "list_all passes_ready_test [?ok]" "[?ok] \<noteq> []"
    by (simp_all add: passes_ready_test_def has_field_def field_def)
  have un: "is_dict (JObj [])" "\<not> has_field (JObj []) ''ready''" "unreadable_condition (JObj [])"
    by (simp_all add: is_dict_def unreadable_condition_def has_field_def field_def)
  have bad: "field ?bad ''ready'' = Some (JBool False)"
    by (simp add: field_def)
  have other: "list_all passed_over [?other]" "list_all passed_over [?other, ?other]"
    by (simp_all add: passed_over_def has_field_def field_def)
  have rdy: "is_ready_condition ?rdy"
    by (simp add: is_ready_condition_def field_def)
  from t [where pods = "[JObj []]"] w
  have a: "\<exists>r. not_running_pods [JObj []] = Inr r" by blast
  from t [where before = "[JObj []]" and p = "?pod [?ok, JObj [], ?ok] []" and pre = "[?ok]"
      and c = "JObj []" and post = "[?ok]" and after = "[]"]
    w cs [of "[?ok] @ JObj [] # [?ok]" "[]"] ok un
  have b: "not_running_pods ([JObj []] @ ?pod [?ok, JObj [], ?ok] [] # []) = Inl KeyError"
    by simp
  from t [where before = "[JObj []]" and q = "?pod [?ok] [?other, JObj []]" and cs = "[?ok]"
      and pre' = "[?other]" and d = "JObj []" and post' = "[]" and after = "[]"]
    w cs [of "[?ok]" "[?other, JObj []]"] cds [of "[?ok]" "[?other] @ JObj [] # []"] ok un other
  have c: "not_running_pods ([JObj []] @ ?pod [?ok] [?other, JObj []] # []) = Inl KeyError"
    by simp
  from t [where p = "?pod [?ok, ?bad, JObj []] [JObj []]" and pre = "[?ok]" and c = ?bad
      and post = "[JObj []]"]
    cs [of "[?ok] @ ?bad # [JObj []]" "[JObj []]"] ok bad
  have d: "pod_not_running (?pod [?ok, ?bad, JObj []] [JObj []]) = Inr True"
    by simp
  from t [where q = "?pod [?ok] [?other, ?rdy, JObj []]" and cs = "[?ok]" and pre' = "[?other]"
      and d = ?rdy and post' = "[JObj []]"]
    cs [of "[?ok]" "[?other, ?rdy, JObj []]"] cds [of "[?ok]" "[?other] @ ?rdy # [JObj []]"]
    ok other rdy
  have e: "pod_not_running (?pod [?ok] [?other, ?rdy, JObj []]) = Inr False"
    by simp
  from t [where q = "?pod [?ok] [?other, ?other]" and cs = "[?ok]" and cds = "[?other, ?other]"]
    cs [of "[?ok]" "[?other, ?other]"] cds [of "[?ok]" "[?other, ?other]"] ok other
  have f: "pod_not_running (?pod [?ok] [?other, ?other]) = Inr True"
    by simp
  from t [where e = "?pod [] [JObj []]"] cs [of "[]" "[JObj []]"]
  have g: "pod_not_running (?pod [] [JObj []]) = Inr True"
    by simp
  from a b c d e f g show ?thesis unfolding Let_def by simp
qed

text \<open>
  C10 as stated fails three times. A container status without \<open>ready\<close> behind one that
  is not ready is never read, and the pod is classified; a condition without \<open>status\<close>
  whose type is not \<open>Ready\<close> is read without harm, and the pod is classified too; and
  with every entry in order, conditions that are null are no sequence to run through:
  the classifier raises a \<^verbatim>\<open>TypeError\<close> and returns nothing.
\<close>

theorem classifier_lookup_error_counterexample:
  "(let p = JObj [(''status'',
               JObj [(''containerStatuses'', JArr [JObj [(''ready'', JBool False)], JObj []])])];
        q = JObj [(''status'',
               JObj [(''containerStatuses'', JArr [JObj [(''ready'', JBool True)]]),
                     (''conditions'', JArr [JObj [(''type'', JStr ''Initialized'')]])])];
        n = JObj [(''status'',
               JObj [(''containerStatuses'', JArr [JObj [(''ready'', JBool True)]]),
                     (''conditions'', JNull)])]
    in entries (container_statuses p) \<noteq> [] \<and>
       list_ex (\<lambda>c. \<not> has_field c ''ready'') (entries (container_statuses p)) \<and>
       not_running_pods [p] = Inr [p] \<and>
       list_ex (\<lambda>c. \<not> has_field c ''status'') (entries (conditions_of q)) \<and>
       not_running_pods [q] = Inr [q] \<and>
       list_all (\<lambda>c. has_field c ''ready'') (entries (container_statuses n)) \<and>
       list_all (\<lambda>c. has_field c ''type'' \<and> has_field c ''status'') (entries (conditions_of n)) \<and>
       not_running_pods [n] = Inl TypeError)"
  by (simp add: Let_def container_statuses_def conditions_of_def field_def has_field_def
      pod_not_running_def condition_ready_def)

subsection \<open>Node eligibility and activation\<close>

lemma py_eq_JStr_left [simp]: "py_eq (JStr s) v = (v = JStr s)"
  by (cases v) auto

lemma py_eq_JNull_left [simp]: "py_eq JNull v = (v = JNull)"
  by (cases v) auto

lemma resolved_masters_eq:
  "resolved_masters unresolved task_vars =
     Inr (case lookup_path task_vars [''groups'', ''masters''] of
            None \<Rightarrow> JArr [JNull]
          | Some m \<Rightarrow> if truthy m then m else JArr [JNull])"
  by (simp add: resolved_masters_def get_var_def py_or_def split: option.splits)

lemma resolved_hostname_eq:
  "get_var unresolved task_vars [''ansible_ssh_host''] None = Inr v \<Longrightarrow>
   resolved_hostname unresolved task_vars = Inr (if truthy v then v else JArr [JNull])"
  by (simp add: resolved_hostname_def py_or_def)




text \<open>
  C5. Let the resolver give \<open>v\<close> for the host address. When the list of masters starts
  with the name \<open>a\<close> and the address is the name \<open>h\<close>, \<open>is_first_master\<close> returns whether
  \<open>a\<close> is \<open>h\<close>; when the address is null or empty, it is replaced by \<open>[None]\<close>, which no
  name equals, and the result is \<open>False\<close>; when the masters are unset, null or empty,
  they are replaced by \<open>[None]\<close>, whose first element no resolved address equals, and
  the result is \<open>False\<close>. Whatever the values are, the result is \<open>True\<close> if and only if
  the first element of the resolved list equals the resolved address.
\<close>

theorem is_first_master_iff:
  "get_var unresolved task_vars [''ansible_ssh_host''] None = Inr v \<Longrightarrow>
   lookup_path task_vars [''groups'', ''masters''] = m \<Longrightarrow>
   (m = Some (JArr (JStr a # others)) \<and> v = JStr h \<and> h \<noteq> [] \<longrightarrow>
      is_first_master unresolved task_vars = Inr (JBool (a = h))) \<and>
   (m = Some (JArr (JStr a # others)) \<and> (v = JNull \<or> v = JStr []) \<longrightarrow>
      is_first_master unresolved task_vars = Inr (JBool False)) \<and>
   (m = None \<or> m = Some JNull \<or> m = Some (JArr []) \<longrightarrow>
      is_first_master unresolved task_vars = Inr (JBool False)) \<and>
   (is_first_master unresolved task_vars = Inr (JBool True) \<longleftrightarrow>
      (\<exists>first. py_first (case m of None \<Rightarrow> JArr [JNull]
                           | Some x \<Rightarrow> if truthy x then x else JArr [JNull]) = Inr first \<and>
               py_eq first (if truthy v then v else JArr [JNull])))"
proof -
  assume v: "get_var unresolved task_vars [''ansible_ssh_host''] None = Inr v"
    and m: "lookup_path task_vars [''groups'', ''masters''] = m"
  note h = resolved_hostname_eq [OF v]
  have ms: "resolved_masters unresolved task_vars =
      Inr (case m of None \<Rightarrow> JArr [JNull] | Some x \<Rightarrow> if truthy x then x else JArr [JNull])"
    using m by (simp add: resolved_masters_eq)
  have t: "truthy (case m of None \<Rightarrow> JArr [JNull] | Some x \<Rightarrow> if truthy x then x else JArr [JNull])"
    by (simp split: option.splits)
  show ?thesis
  proof (intro conjI impI)
    assume "m = Some (JArr (JStr a # others)) \<and> v = JStr h \<and> h \<noteq> []"
    then show "is_first_master unresolved task_vars = Inr (JBool (a = h))"
      using h ms by (auto simp: is_first_master_def)
  next
    assume "m = Some (JArr (JStr a # others)) \<and> (v = JNull \<or> v = JStr [])"
    then show "is_first_master unresolved task_vars = Inr (JBool False)"
      using h ms by (auto simp: is_first_master_def)
  next
    assume "m = None \<or> m = Some JNull \<or> m = Some (JArr [])"
    then show "is_first_master unresolved task_vars = Inr (JBool False)"
      using h ms by (auto simp: is_first_master_def)
  next
    show "is_first_master unresolved task_vars = Inr (JBool True) \<longleftrightarrow>
      (\<exists>first. py_first (case m of None \<Rightarrow> JArr [JNull]
                           | Some x \<Rightarrow> if truthy x then x else JArr [JNull]) = Inr first \<and>
               py_eq first (if truthy v then v else JArr [JNull]))"
      using t by (auto simp: is_first_master_def h ms then_do_eq_Inr)
  qed
qed


theorem is_first_master_iff_witness:
  "(let raising = (\<lambda>ks. Inl (Undefined ks));
        ctx = (\<lambda>host. JObj [(''ansible_ssh_host'', host),
                 (''groups'', JObj [(''masters'', JArr [JStr ''master1.example.com'',
                                                       JStr ''master2.example.com''])])])
    in is_first_master raising (ctx (JStr ''master1.example.com'')) = Inr (JBool True) \<and>
       is_first_master raising (ctx (JStr ''master2.example.com'')) = Inr (JBool False) \<and>
       is_first_master raising (ctx JNull) = Inr (JBool False) \<and>
       is_first_master raising (JObj [(''ansible_ssh_host'', JStr ''master1.example.com'')]) =
         Inr (JBool False))"
proof -
  let ?raising = "\<lambda>ks. Inl (Undefined ks) :: error + json"
  let ?ms = "JArr [JStr ''master1.example.com'', JStr ''master2.example.com'']"
  let ?ctx = "\<lambda>host. JObj [(''ansible_ssh_host'', host), (''groups'', JObj [(''masters'', ?ms)])]"
  let ?lone = "JObj [(''ansible_ssh_host'', JStr ''master1.example.com'')]"
  have g: "get_var ?raising (?ctx host) [''ansible_ssh_host''] None = Inr host" for host
    by (simp add: get_var_def field_def)
  have l: "lookup_path (?ctx host) [''groups'', ''masters''] = Some ?ms" for host
    by (simp add: field_def)
  have g': "get_var ?raising ?lone [''ansible_ssh_host''] None = Inr (JStr ''master1.example.com'')"
    by (simp add: get_var_def field_def)
  have l': "lookup_path ?lone [''groups'', ''masters''] = None"
    by (simp add: field_def)
  from is_first_master_iff [OF g l, where a = "''master1.example.com''"
      and h = "''master1.example.com''"]
  have a: "is_first_master ?raising (?ctx (JStr ''master1.example.com'')) = Inr (JBool True)"
    by simp
  from is_first_master_iff [OF g l, where a = "''master1.example.com''"
      and h = "''master2.example.com''"]
  have b: "is_first_master ?raising (?ctx (JStr ''master2.example.com'')) = Inr (JBool False)"
    by simp
  from is_first_master_iff [OF g l, where a = "''master1.example.com''"]
  have c: "is_first_master ?raising (?ctx JNull) = Inr (JBool False)"
    by simp
  from is_first_master_iff [OF g' l']
  have d: "is_first_master ?raising ?lone = Inr (JBool False)"
    by simp
  from a b c d show ?thesis unfolding Let_def by simp
qed

text \<open>
  C6 (as amended). When the host address resolves to its fallback and the list of
  masters to its own, \<open>is_first_master\<close> returns \<open>False\<close>: the fallback of the host is
  the list \<open>[None]\<close>, the first element of the fallback of the masters is \<open>None\<close>, and
  the two differ. Both resolve so when the resolver gives a value that is not truthy
  for the address and the masters are unset or not truthy.
\<close>

theorem fallbacks_not_eligible:
  "(resolved_hostname unresolved task_vars = Inr (JArr [JNull]) \<and>
    resolved_masters unresolved task_vars = Inr (JArr [JNull])
      \<longrightarrow> is_first_master unresolved task_vars = Inr (JBool False)) \<and>
   (get_var unresolved task_vars [''ansible_ssh_host''] None = Inr v \<and> \<not> truthy v \<and>
    (case lookup_path task_vars [''groups'', ''masters''] of
       None \<Rightarrow> True | Some m \<Rightarrow> \<not> truthy m)
      \<longrightarrow> resolved_hostname unresolved task_vars = Inr (JArr [JNull]) \<and>
          resolved_masters unresolved task_vars = Inr (JArr [JNull]) \<and>
          is_first_master unresolved task_vars = Inr (JBool False))"
  by (auto simp: is_first_master_def resolved_hostname_eq resolved_masters_eq
      split: option.splits)

theorem fallbacks_not_eligible_witness:
  "(let raising = (\<lambda>ks. Inl (Undefined ks));
        tv = JObj [(''ansible_ssh_host'', JStr []), (''groups'', JObj [(''masters'', JArr [])])]
    in get_var raising tv [''ansible_ssh_host''] None = Inr (JStr []) \<and>
       resolved_hostname raising tv = Inr (JArr [JNull]) \<and>
       resolved_masters raising tv = Inr (JArr [JNull]) \<and>
       is_first_master raising tv = Inr (JBool False))"
proof -
  let ?raising = "\<lambda>ks. Inl (Undefined ks) :: error + json"
  let ?tv = "JObj [(''ansible_ssh_host'', JStr []), (''groups'', JObj [(''masters'', JArr [])])]"
  have g: "get_var ?raising ?tv [''ansible_ssh_host''] None = Inr (JStr [])"
    by (simp add: get_var_def field_def)
  have n: "\<not> truthy (JStr [])" by simp
  have m: "(case lookup_path ?tv [''groups'', ''masters''] of
       None \<Rightarrow> True | Some m \<Rightarrow> \<not> truthy m)"
    by (simp add: field_def)
  from fallbacks_not_eligible [of ?raising ?tv "JStr []"] g n m
  have a: "resolved_hostname ?raising ?tv = Inr (JArr [JNull]) \<and>
      resolved_masters ?raising ?tv = Inr (JArr [JNull]) \<and>
      is_first_master ?raising ?tv = Inr (JBool False)"
    by blast
  from fallbacks_not_eligible [of ?raising ?tv] a
  have "is_first_master ?raising ?tv = Inr (JBool False)" by blast
  with g a show ?thesis unfolding Let_def by blast
qed

text \<open>
  C6 as stated fails. With nothing set and a resolver that falls back to \<open>None\<close>, and
  with the host address set to null under any resolver, both values resolve to their
  fallbacks, and the filter returns \<open>False\<close>.
\<close>

theorem fallbacks_eligible_counterexample:
  "resolved_hostname (\<lambda>ks. Inr JNull) (JObj []) = Inr (JArr [JNull]) \<and>
   resolved_masters (\<lambda>ks. Inr JNull) (JObj []) = Inr (JArr [JNull]) \<and>
   is_first_master (\<lambda>ks. Inr JNull) (JObj []) = Inr (JBool False) \<and>
   resolved_hostname (\<lambda>ks. Inl (Undefined ks)) (JObj [(''ansible_ssh_host'', JNull)]) =
     Inr (JArr [JNull]) \<and>
   resolved_masters (\<lambda>ks. Inl (Undefined ks)) (JObj [(''ansible_ssh_host'', JNull)]) =
     Inr (JArr [JNull]) \<and>
   is_first_master (\<lambda>ks. Inl (Undefined ks)) (JObj [(''ansible_ssh_host'', JNull)]) =
     Inr (JBool False)"
  by (simp add: is_first_master_def resolved_hostname_def resolved_masters_def get_var_def
      field_def py_or_def)

text \<open>
  The flag is the last operand of the chain in \<open>is_active\<close>: what the filter raises
  leaves \<open>is_active\<close> before the flag is asked.
\<close>

lemma is_active_raises_with_filter:
  "super_is_active task_vars \<Longrightarrow> is_first_master unresolved task_vars = Inl e \<Longrightarrow>
   is_active unresolved super_is_active task_vars = Inl e"
  by (auto simp: is_active_def get_var_def split: option.splits)



subsection \<open>Running \<^verbatim>\<open>oc\<close>\<close>

lemma exec_oc_not_failed:
  "ocutil_result unresolved execute_module ns cmd_str extra task_vars = Inr r \<Longrightarrow> \<not> failed_flag r \<Longrightarrow>
   exec_oc unresolved render execute_module ns cmd_str extra task_vars = Inr (output_field r)"
  by (simp add: exec_oc_def failed_flag_def output_field_def)

lemma exec_oc_failed:
  "ocutil_result unresolved execute_module ns cmd_str extra task_vars = Inr r \<Longrightarrow> failed_flag r \<Longrightarrow>
   map_of r ''result'' = Some v \<Longrightarrow>
   exec_oc unresolved render execute_module ns cmd_str extra task_vars =
     Inl (OpenShiftCheckException
           (if v = JStr no_such_file then missing_oc_msg
            else unexpected_error_msg cmd_str (format_value render v)))"
  by (simp add: exec_oc_def failed_flag_def)

lemma exec_oc_failed_no_text:
  "ocutil_result unresolved execute_module ns cmd_str extra task_vars = Inr r \<Longrightarrow> failed_flag r \<Longrightarrow>
   map_of r ''result'' = None \<Longrightarrow>
   exec_oc unresolved render execute_module ns cmd_str extra task_vars = Inl KeyError"
  by (simp add: exec_oc_def failed_flag_def)

lemma exec_oc_domain_error_iff:
  "ocutil_result unresolved execute_module ns cmd_str extra task_vars = Inr r \<Longrightarrow>
   is_domain_error (exec_oc unresolved render execute_module ns cmd_str extra task_vars) \<longleftrightarrow>
     failed_flag r \<and> map_of r ''result'' \<noteq> None"
  by (cases "failed_flag r"; cases "map_of r ''result''")
    (auto simp: exec_oc_not_failed exec_oc_failed exec_oc_failed_no_text is_domain_error_def)

text \<open>
  C3. The claim is right about every result that is not failed, and about every failed
  one that carries its text. On a failed result without the key \<open>result\<close>, as Ansible
  gives when the module itself could not run, \<open>exec_oc\<close> gets no further than the
  formatting of the message: what leaves it is the \<^verbatim>\<open>KeyError\<close> of
  \<^verbatim>\<open>result['result']\<close>, not the \<^verbatim>\<open>OpenShiftCheckException\<close> that its docstring
  promises on error.
\<close>

theorem exec_oc_failed_without_result:
  "(let tv = JObj [(''openshift'',
              JObj [(''common'', JObj [(''config_base'', JStr ''/etc/origin'')])])];
        r = [(''failed'', JBool True), (''msg'', JStr ''MODULE FAILURE'')]
    in ocutil_result (\<lambda>ks. Inl (Undefined ks)) (\<lambda>m a x t. r) ''logging'' ''get pods'' None tv = Inr r \<and>
       failed_flag r \<and>
       exec_oc (\<lambda>ks. Inl (Undefined ks)) (\<lambda>v. []) (\<lambda>m a x t. r) ''logging'' ''get pods'' None tv = Inl KeyError \<and>
       \<not> is_domain_error (exec_oc (\<lambda>ks. Inl (Undefined ks)) (\<lambda>v. []) (\<lambda>m a x t. r) ''logging'' ''get pods'' None tv))"
  by (simp add: Let_def ocutil_result_def get_var_def field_def os_path_join_def exec_oc_def
      failed_flag_def is_domain_error_def)

text \<open>
  C4. On a failed result whose \<open>result\<close> is a text, \<open>exec_oc\<close> raises the
  \<^verbatim>\<open>OpenShiftCheckException\<close> with the message about the missing \<^verbatim>\<open>oc\<close> when the text
  is exactly that of a missing file, and with the two-part message otherwise. The
  first names the master and the missing command, asks whether an installation has
  run, and holds neither line of the second; the second holds the command and the
  text.
\<close>

theorem failure_message_selection:
  "ocutil_result unresolved execute_module ns cmd_str extra task_vars = Inr r \<Longrightarrow> failed_flag r \<Longrightarrow>
   map_of r ''result'' = Some (JStr e) \<Longrightarrow>
   exec_oc unresolved render execute_module ns cmd_str extra task_vars =
     Inl (OpenShiftCheckException
           (if e = ''[Errno 2] No such file or directory'' then missing_oc_msg
            else unexpected_error_msg cmd_str e)) \<and>
   sublist ''supposed to be a master but does not have the `oc` command'' missing_oc_msg \<and>
   sublist ''Has an installation been run on this host yet?'' missing_oc_msg \<and>
   \<not> sublist ''Unexpected error'' missing_oc_msg \<and>
   \<not> sublist ''Error executing'' missing_oc_msg \<and>
   sublist ''Unexpected error using `oc` to validate the logging stack components.''
     (unexpected_error_msg cmd_str e) \<and>
   sublist (''Error executing `oc '' @ cmd_str @ ''`:'') (unexpected_error_msg cmd_str e) \<and>
   sublist cmd_str (unexpected_error_msg cmd_str e) \<and>
   sublist e (unexpected_error_msg cmd_str e)"
proof (intro conjI)
  assume a: "ocutil_result unresolved execute_module ns cmd_str extra task_vars = Inr r" "failed_flag r"
    "map_of r ''result'' = Some (JStr e)"
  show "exec_oc unresolved render execute_module ns cmd_str extra task_vars =
     Inl (OpenShiftCheckException
           (if e = ''[Errno 2] No such file or directory'' then missing_oc_msg
            else unexpected_error_msg cmd_str e))"
    using exec_oc_failed [OF a, where render = render]
    by (simp add: format_value_def no_such_file_def)
next
  show "sublist ''supposed to be a master but does not have the `oc` command'' missing_oc_msg"
    by code_simp
  show "sublist ''Has an installation been run on this host yet?'' missing_oc_msg"
    by code_simp
  show "\<not> sublist ''Unexpected error'' missing_oc_msg"
    by code_simp
  show "\<not> sublist ''Error executing'' missing_oc_msg"
    by code_simp
next
  have u: "unexpected_error_msg cmd_str e =
      [] @ ''Unexpected error using `oc` to validate the logging stack components.'' @
      (''\<newline>Error executing `oc '' @ cmd_str @ ''`:\<newline>'' @ e)"
    by (simp add: unexpected_error_msg_def)
  show "sublist ''Unexpected error using `oc` to validate the logging stack components.''
     (unexpected_error_msg cmd_str e)"
    unfolding u by (rule sublist_appendI)
  have v: "unexpected_error_msg cmd_str e =
      ''Unexpected error using `oc` to validate the logging stack components.\<newline>'' @
      (''Error executing `oc '' @ cmd_str @ ''`:'') @ (''\<newline>'' @ e)"
    by (simp add: unexpected_error_msg_def)
  show "sublist (''Error executing `oc '' @ cmd_str @ ''`:'') (unexpected_error_msg cmd_str e)"
    unfolding v by (rule sublist_appendI)
  have w: "unexpected_error_msg cmd_str e =
      (''Unexpected error using `oc` to validate the logging stack components.\<newline>'' @
       ''Error executing `oc '') @ cmd_str @ (''`:\<newline>'' @ e)"
    by (simp add: unexpected_error_msg_def)
  show "sublist cmd_str (unexpected_error_msg cmd_str e)"
    unfolding w by (rule sublist_appendI)
  have x: "unexpected_error_msg cmd_str e =
      (''Unexpected error using `oc` to validate the logging stack components.\<newline>'' @
       ''Error executing `oc '' @ cmd_str @ ''`:\<newline>'') @ e @ []"
    by (simp add: unexpected_error_msg_def)
  show "sublist e (unexpected_error_msg cmd_str e)"
    unfolding x by (rule sublist_appendI)
qed

theorem failure_message_selection_witness:
  "(let tv = JObj [(''openshift'',
              JObj [(''common'', JObj [(''config_base'', JStr ''/etc/origin'')])])];
        missing = [(''failed'', JBool True),
                   (''result'', JStr ''[Errno 2] No such file or directory'')];
        denied = [(''failed'', JBool True), (''result'', JStr ''permission denied'')]
    in ocutil_result (\<lambda>ks. Inl (Undefined ks)) (\<lambda>m a x t. missing) ''logging'' ''get pods'' None tv = Inr missing \<and>
       failed_flag missing \<and>
       exec_oc (\<lambda>ks. Inl (Undefined ks)) (\<lambda>v. []) (\<lambda>m a x t. missing) ''logging'' ''get pods'' None tv =
         Inl (OpenShiftCheckException missing_oc_msg) \<and>
       ocutil_result (\<lambda>ks. Inl (Undefined ks)) (\<lambda>m a x t. denied) ''logging'' ''get pods'' None tv = Inr denied \<and>
       failed_flag denied \<and>
       exec_oc (\<lambda>ks. Inl (Undefined ks)) (\<lambda>v. []) (\<lambda>m a x t. denied) ''logging'' ''get pods'' None tv =
         Inl (OpenShiftCheckException (unexpected_error_msg ''get pods'' ''permission denied'')) \<and>
       sublist ''permission denied'' (unexpected_error_msg ''get pods'' ''permission denied''))"
proof -
  let ?tv = "JObj [(''openshift'',
              JObj [(''common'', JObj [(''config_base'', JStr ''/etc/origin'')])])]"
  let ?missing = "[(''failed'', JBool True),
                   (''result'', JStr ''[Errno 2] No such file or directory'')]"
  let ?denied = "[(''failed'', JBool True), (''result'', JStr ''permission denied'')]"
  have o: "ocutil_result (\<lambda>ks. Inl (Undefined ks)) (\<lambda>m a x t. r) ''logging'' ''get pods'' None ?tv = Inr r" for r
    by (simp add: ocutil_result_def get_var_def field_def os_path_join_def)
  have f: "failed_flag ?missing" "failed_flag ?denied"
    by (simp_all add: failed_flag_def)
  have t1: "map_of ?missing ''result'' = Some (JStr ''[Errno 2] No such file or directory'')"
    by simp
  have t2: "map_of ?denied ''result'' = Some (JStr ''permission denied'')"
    by simp
  from failure_message_selection [OF o f(1) t1, where render = "\<lambda>v. []"]
  have a: "exec_oc (\<lambda>ks. Inl (Undefined ks)) (\<lambda>v. []) (\<lambda>m a x t. ?missing) ''logging'' ''get pods'' None ?tv =
         Inl (OpenShiftCheckException missing_oc_msg)"
    by simp
  from failure_message_selection [OF o f(2) t2, where render = "\<lambda>v. []"]
  have b: "exec_oc (\<lambda>ks. Inl (Undefined ks)) (\<lambda>v. []) (\<lambda>m a x t. ?denied) ''logging'' ''get pods'' None ?tv =
         Inl (OpenShiftCheckException (unexpected_error_msg ''get pods'' ''permission denied''))"
    and c: "sublist ''permission denied'' (unexpected_error_msg ''get pods'' ''permission denied'')"
    by simp_all
  from o f a b c show ?thesis unfolding Let_def by blast
qed

subsection \<open>The pods of a component\<close>

text \<open>
  C2. Let the module have run the query for the pods of the component, with a result
  that is not failed. \<open>get_pods_for_component\<close> returns no pods and the message
  \<^verbatim>\<open>No pods were found for the "<component>" logging component.\<close>, the label in
  its place, when the output does not parse, or parses to a value that is not truthy,
  or to a dict whose \<open>items\<close> are missing or not truthy; it returns the items and no
  message when the output parses to a dict whose \<open>items\<close> are truthy.
\<close>

theorem get_pods_for_component_outcomes:
  \<open>ocutil_result unresolved execute_module ns
     (''get pods -l component='' @ logging_component @ '' -o json'') (Some []) task_vars = Inr r \<Longrightarrow>
   \<not> failed_flag r \<Longrightarrow> output_field r = JStr text \<Longrightarrow>
   (json_loads text = None \<longrightarrow>
      get_pods_for_component unresolved json_loads render execute_module ns logging_component
          task_vars =
        Inr (None, Some (''No pods were found for the "'' @ logging_component @
                         ''" logging component.''))) \<and>
   (json_loads text = Some v \<and> \<not> truthy v \<longrightarrow>
      get_pods_for_component unresolved json_loads render execute_module ns logging_component
          task_vars =
        Inr (None, Some (''No pods were found for the "'' @ logging_component @
                         ''" logging component.''))) \<and>
   (json_loads text = Some (JObj kvs) \<and>
    (case map_of kvs ''items'' of None \<Rightarrow> True | Some i \<Rightarrow> \<not> truthy i) \<longrightarrow>
      get_pods_for_component unresolved json_loads render execute_module ns logging_component
          task_vars =
        Inr (None, Some (''No pods were found for the "'' @ logging_component @
                         ''" logging component.''))) \<and>
   (json_loads text = Some (JObj kvs') \<and> map_of kvs' ''items'' = Some items \<and> truthy items \<longrightarrow>
      get_pods_for_component unresolved json_loads render execute_module ns logging_component
          task_vars =
        Inr (Some items, None))\<close>
proof -
  assume "ocutil_result unresolved execute_module ns
     (''get pods -l component='' @ logging_component @ '' -o json'') (Some []) task_vars = Inr r"
    and "\<not> failed_flag r" and t: "output_field r = JStr text"
  then have e: "exec_oc unresolved render execute_module ns (pods_query logging_component)
      (Some []) task_vars = Inr (JStr text)"
    by (simp add: exec_oc_not_failed pods_query_def)
  show ?thesis
    by (auto simp: get_pods_for_component_def e no_pods_msg_def split: option.splits)
qed

theorem get_pods_for_component_outcomes_witness:
  \<open>(let tv = JObj [(''openshift'',
              JObj [(''common'', JObj [(''config_base'', JStr ''/etc/origin'')])])];
        ex = (\<lambda>m a x t. [(''failed'', JBool False), (''result'', JStr (cmd a))]);
        pod = JObj [(''status'', JObj [])];
        got = (\<lambda>parse label. get_pods_for_component (\<lambda>ks. Inl (Undefined ks)) parse (\<lambda>v. []) ex
                 ''logging'' label tv)
    in got (\<lambda>s. None) ''es'' =
         Inr (None, Some ''No pods were found for the "es" logging component.'') \<and>
       got (\<lambda>s. Some (JArr [])) ''kibana'' =
         Inr (None, Some ''No pods were found for the "kibana" logging component.'') \<and>
       got (\<lambda>s. Some (JObj [(''items'', JArr [])])) ''fluentd'' =
         Inr (None, Some ''No pods were found for the "fluentd" logging component.'') \<and>
       got (\<lambda>s. if s = ''get pods -l component=es -o json''
                then Some (JObj [(''kind'', JStr ''List''), (''items'', JArr [pod])]) else None)
           ''es'' =
         Inr (Some (JArr [pod]), None))\<close>
proof -
  let ?raising = "\<lambda>ks. Inl (Undefined ks) :: error + json"
  let ?tv = "JObj [(''openshift'',
              JObj [(''common'', JObj [(''config_base'', JStr ''/etc/origin'')])])]"
  let ?ex = "\<lambda>(m::string) (a::oc_args) (x::json) (t::json).
      [(''failed'', JBool False), (''result'', JStr (cmd a))]"
  let ?pod = "JObj [(''status'', JObj [])]"
  let ?q = "\<lambda>label. ''get pods -l component='' @ label @ '' -o json''"
  let ?r = "\<lambda>label. [(''failed'', JBool False), (''result'', JStr (?q label))]"
  let ?p4 = "\<lambda>s. if s = ''get pods -l component=es -o json''
                then Some (JObj [(''kind'', JStr ''List''), (''items'', JArr [?pod])]) else None"
  have o: "ocutil_result ?raising ?ex ''logging'' (?q label) (Some []) ?tv = Inr (?r label)"
    for label
    by (simp add: ocutil_result_def get_var_def field_def os_path_join_def build_args_def)
  have f: "\<not> failed_flag (?r label)" for label by (simp add: failed_flag_def)
  have t: "output_field (?r label) = JStr (?q label)" for label by (simp add: output_field_def)
  from get_pods_for_component_outcomes [OF o [of "''es''"] f t, where json_loads = "\<lambda>s. None" and render = "\<lambda>v. []"]
  have a: \<open>get_pods_for_component ?raising (\<lambda>s. None) (\<lambda>v. []) ?ex ''logging'' ''es'' ?tv =
      Inr (None, Some ''No pods were found for the "es" logging component.'')\<close>
    by simp
  from get_pods_for_component_outcomes [OF o [of "''kibana''"] f t, where json_loads = "\<lambda>s. Some (JArr [])" and v = "JArr []" and render = "\<lambda>v. []"
     ]
  have b: \<open>get_pods_for_component ?raising (\<lambda>s. Some (JArr [])) (\<lambda>v. []) ?ex ''logging''
      ''kibana'' ?tv = Inr (None, Some ''No pods were found for the "kibana" logging component.'')\<close>
    by simp
  from get_pods_for_component_outcomes [OF o [of "''fluentd''"] f t, where json_loads = "\<lambda>s. Some (JObj [(''items'', JArr [])])"
      and kvs = "[(''items'', JArr [])]" and render = "\<lambda>v. []"
     ]
  have c: \<open>get_pods_for_component ?raising (\<lambda>s. Some (JObj [(''items'', JArr [])])) (\<lambda>v. []) ?ex
      ''logging'' ''fluentd'' ?tv =
      Inr (None, Some ''No pods were found for the "fluentd" logging component.'')\<close>
    by simp
  from get_pods_for_component_outcomes [OF o [of "''es''"] f t, where json_loads = ?p4 and kvs' = "[(''kind'', JStr ''List''), (''items'', JArr [?pod])]"
      and items = "JArr [?pod]" and render = "\<lambda>v. []"]
  have d: "get_pods_for_component ?raising ?p4 (\<lambda>v. []) ?ex ''logging'' ''es'' ?tv =
      Inr (Some (JArr [?pod]), None)"
    by simp
  from a b c d show ?thesis unfolding Let_def by simp
qed

end
